theory Spec2Isabelle
  imports Complex_Main "HOL-Library.Signed_Division" "HOL-Library.Log_Nat"
begin

section \<open>The heart in the battle box: a model of gamemovement.cpp\<close>

text \<open>
  The program keeps a \<^verbatim>\<open>Heart\<close> (a glyph with a position, a direction, a speed and a
  moving flag) inside a \<^verbatim>\<open>BattleBox\<close> (a bordered rectangle), in a loop that drains
  the pending keys, moves the heart, pins it to the interior of the box and redraws it.

  Numbers. A C++ \<^verbatim>\<open>float\<close> is modelled as a \<^typ>\<open>real\<close>: the arithmetic of
  the model is exact, and the literals \<^verbatim>\<open>0.3f\<close>, \<^verbatim>\<open>0.2f\<close>, \<^verbatim>\<open>0.05f\<close> are the decimal
  fractions. The theorems on the boundary check, the keys, the ranges and the loop use
  only what exact and rounded arithmetic share: comparisons, assignments of constants
  and of values converted from small integers, and the fact that adding a non-negative
  (non-positive) quantity does not decrease (increase) a number. Two statements do
  depend on rounding, the unit length of the direction that \<^verbatim>\<open>setDirection\<close> stores and
  the sum that \<^verbatim>\<open>update\<close> accumulates. For them the constructor and these two methods
  are modelled a second time, in binary32: every literal, conversion and arithmetic
  operation is followed by rounding to the nearest binary32 number, ties to even.
  Overflow, infinities and NaN are outside both models. A C++ \<^verbatim>\<open>int\<close> is modelled as
  an \<^typ>\<open>int\<close>: the box coordinates come from the terminal size, and signed overflow
  (undefined in C++) is outside the model.

  Names. The fields \<^verbatim>\<open>x\<close>, \<^verbatim>\<open>y\<close>, \<^verbatim>\<open>width\<close>, \<^verbatim>\<open>height\<close> of the two classes are prefixed
  with the class (\<open>heart_x\<close>, \<open>box_width\<close>); every other name is the source's.
\<close>

subsection \<open>The terminal\<close>

text \<open>
  The calls to ncurses that draw are recorded, in order, as a list of operations. The
  attribute of \<^verbatim>\<open>attron\<close>/\<^verbatim>\<open>attroff\<close> is \<^verbatim>\<open>A_REVERSE\<close> or a colour pair;
  \<^verbatim>\<open>mvaddch(y, x, ch)\<close> keeps the order of its arguments, row first. The calls that set
  the terminal up and restore it (\<^verbatim>\<open>initscr\<close> to \<^verbatim>\<open>init_pair\<close>, \<^verbatim>\<open>endwin\<close>) are not
  recorded.
\<close>

datatype attr = A_REVERSE | COLOR_PAIR nat

datatype term_op =
    Attron attr
  | Attroff attr
  | Mvaddch int int int
  | Mvprintw int int string
  | Refresh
  | Usleep nat

text \<open>
  The values that \<^verbatim>\<open>getch\<close> returns are \<^verbatim>\<open>int\<close>s. The key codes are those of the header
  of the ncurses library, which is not part of the repository: \<^verbatim>\<open>ERR\<close> is \<^verbatim>\<open>-1\<close>, and
  \<^verbatim>\<open>KEY_DOWN\<close>, \<^verbatim>\<open>KEY_UP\<close>, \<^verbatim>\<open>KEY_LEFT\<close>, \<^verbatim>\<open>KEY_RIGHT\<close> are octal \<^verbatim>\<open>0402\<close> to \<^verbatim>\<open>0405\<close>.
  A character literal is its ASCII code. The properties below need of these values only
  that they differ from one another.
\<close>

definition ERR :: int where "ERR = - 1"
definition KEY_DOWN :: int where "KEY_DOWN = 258"
definition KEY_UP :: int where "KEY_UP = 259"
definition KEY_LEFT :: int where "KEY_LEFT = 260"
definition KEY_RIGHT :: int where "KEY_RIGHT = 261"

definition chr :: "char \<Rightarrow> int" where
  "chr c = of_char c"

subsection \<open>class Heart\<close>

record Heart =
  heart_x :: real
  heart_y :: real
  lastDrawnX :: int
  lastDrawnY :: int
  directionX :: real
  directionY :: real
  baseSpeed :: real
  aspectRatio :: real
  moving :: bool
  symbol :: int

text \<open>
  The constructor. \<^verbatim>\<open>ACS_DIAMOND\<close> is an entry of a table that ncurses fills at run time,
  so the glyph is a parameter; the runs on given keys below take 96 for it.
\<close>

definition Heart_init :: "int \<Rightarrow> int \<Rightarrow> int \<Rightarrow> Heart" where
  "Heart_init ACS_DIAMOND startX startY =
     \<lparr> heart_x = of_int startX, heart_y = of_int startY,
       lastDrawnX = startX, lastDrawnY = startY,
       directionX = 0, directionY = 0,
       baseSpeed = 0.3, aspectRatio = 2.0,
       moving = False, symbol = ACS_DIAMOND \<rparr>"

definition update :: "Heart \<Rightarrow> Heart" where
  "update h =
     (if moving h then
        h\<lparr> heart_x := heart_x h + directionX h * baseSpeed h * aspectRatio h,
           heart_y := heart_y h + directionY h * baseSpeed h \<rparr>
      else h)"

definition setDirection :: "real \<Rightarrow> real \<Rightarrow> Heart \<Rightarrow> Heart" where
  "setDirection dx dy h =
     (if dx \<noteq> 0 \<or> dy \<noteq> 0 then
        (let length = sqrt (dx * dx + dy * dy)
         in h\<lparr> directionX := dx / length, directionY := dy / length, moving := True \<rparr>)
      else h)"

definition setAspectRatio :: "real \<Rightarrow> Heart \<Rightarrow> Heart" where
  "setAspectRatio ratio h = h\<lparr> aspectRatio := ratio \<rparr>"

definition setSpeed :: "real \<Rightarrow> Heart \<Rightarrow> Heart" where
  "setSpeed speed h = h\<lparr> baseSpeed := speed \<rparr>"

definition stop :: "Heart \<Rightarrow> Heart" where
  "stop h = h\<lparr> moving := False \<rparr>"

definition start :: "Heart \<Rightarrow> Heart" where
  "start h = h\<lparr> moving := True \<rparr>"

definition isMoving :: "Heart \<Rightarrow> bool" where
  "isMoving h = moving h"

definition setPosition :: "real \<Rightarrow> real \<Rightarrow> Heart \<Rightarrow> Heart" where
  "setPosition newX newY h = h\<lparr> heart_x := newX, heart_y := newY \<rparr>"

definition clearPrevious :: "Heart \<Rightarrow> term_op list" where
  "clearPrevious h = [Mvaddch (lastDrawnY h) (lastDrawnX h) (chr CHR '' '')]"

text \<open>
  \<^verbatim>\<open>round\<close> of \<^verbatim>\<open>cmath\<close> rounds to the nearest integer, halfway cases away from zero.
\<close>

definition c_round :: "real \<Rightarrow> int" where
  "c_round r = (if 0 \<le> r then \<lfloor>r + 1 / 2\<rfloor> else \<lceil>r - 1 / 2\<rceil>)"

definition Heart_draw :: "Heart \<Rightarrow> Heart \<times> term_op list" where
  "Heart_draw h =
     (let currentX = c_round (heart_x h);
          currentY = c_round (heart_y h)
      in if currentX \<noteq> lastDrawnX h \<or> currentY \<noteq> lastDrawnY h then
           (h\<lparr> lastDrawnX := currentX, lastDrawnY := currentY \<rparr>,
            clearPrevious h @
            [Attron (COLOR_PAIR 1), Mvaddch currentY currentX (symbol h), Attroff (COLOR_PAIR 1)])
         else
           (h, [Attron (COLOR_PAIR 1), Mvaddch currentY currentX (symbol h), Attroff (COLOR_PAIR 1)]))"

definition getX :: "Heart \<Rightarrow> real" where "getX h = heart_x h"
definition getY :: "Heart \<Rightarrow> real" where "getY h = heart_y h"
definition getAspectRatio :: "Heart \<Rightarrow> real" where "getAspectRatio h = aspectRatio h"
definition getSpeed :: "Heart \<Rightarrow> real" where "getSpeed h = baseSpeed h"

subsection \<open>class BattleBox\<close>

record BattleBox =
  box_x :: int
  box_y :: int
  box_width :: int
  box_height :: int
  needsRedraw :: bool

definition BattleBox_init :: "int \<Rightarrow> int \<Rightarrow> int \<Rightarrow> int \<Rightarrow> BattleBox" where
  "BattleBox_init startX startY w h =
     \<lparr> box_x = startX, box_y = startY, box_width = w, box_height = h, needsRedraw = True \<rparr>"

text \<open>
  \<^verbatim>\<open>BattleBox::draw\<close>: the two \<^verbatim>\<open>for\<close> loops run over the integers \<open>-1 .. width+1\<close> and
  \<open>0 .. height\<close>, both ends included, and write their cells in the order of the source.
\<close>

definition BattleBox_draw :: "BattleBox \<Rightarrow> BattleBox \<times> term_op list" where
  "BattleBox_draw b =
     (if \<not> needsRedraw b then (b, [])
      else
        (b\<lparr> needsRedraw := False \<rparr>,
         [Attron A_REVERSE] @
         concat (map (\<lambda>i. [Mvaddch (box_y b) (box_x b + i) (chr CHR '' ''),
                            Mvaddch (box_y b + box_height b) (box_x b + i) (chr CHR '' '')])
                     [- 1 .. box_width b + 1]) @
         concat (map (\<lambda>i. [Mvaddch (box_y b + i) (box_x b) (chr CHR '' ''),
                            Mvaddch (box_y b + i) (box_x b + box_width b) (chr CHR '' ''),
                            Mvaddch (box_y b + i) (box_x b - 1) (chr CHR '' ''),
                            Mvaddch (box_y b + i) (box_x b + 1 + box_width b) (chr CHR '' '')])
                     [0 .. box_height b]) @
         [Attroff A_REVERSE]))"

definition setNeedsRedraw :: "BattleBox \<Rightarrow> BattleBox" where
  "setNeedsRedraw b = b\<lparr> needsRedraw := True \<rparr>"

definition BattleBox_getX :: "BattleBox \<Rightarrow> int" where "BattleBox_getX b = box_x b"
definition BattleBox_getY :: "BattleBox \<Rightarrow> int" where "BattleBox_getY b = box_y b"
definition getWidth :: "BattleBox \<Rightarrow> int" where "getWidth b = box_width b"
definition getHeight :: "BattleBox \<Rightarrow> int" where "getHeight b = box_height b"

subsection \<open>main: the loop controller\<close>

text \<open>
  One key of the \<^verbatim>\<open>else if\<close> chain of the input loop, after the test for the quit keys
  (lines 204 to 239). A key that no branch names changes nothing.
\<close>

definition handle_key :: "int \<Rightarrow> Heart \<Rightarrow> Heart" where
  "handle_key ch h =
     (if ch = chr CHR '' '' then
        (if isMoving h then stop h else start h)
      else if ch = chr CHR ''+'' \<or> ch = chr CHR ''='' then
        (let aspectRatio = getAspectRatio h + 0.2;
             aspectRatio = (if aspectRatio > 5.0 then 5.0 else aspectRatio)
         in setAspectRatio aspectRatio h)
      else if ch = chr CHR ''-'' \<or> ch = chr CHR ''_'' then
        (let aspectRatio = getAspectRatio h - 0.2;
             aspectRatio = (if aspectRatio < 1.0 then 1.0 else aspectRatio)
         in setAspectRatio aspectRatio h)
      else if ch = chr CHR ''['' then
        (let speed = getSpeed h - 0.05;
             speed = (if speed < 0.05 then 0.05 else speed)
         in setSpeed speed h)
      else if ch = chr CHR '']'' then
        (let speed = getSpeed h + 0.05;
             speed = (if speed > 1.0 then 1.0 else speed)
         in setSpeed speed h)
      else if ch = KEY_UP then setDirection 0 (- 1) h
      else if ch = KEY_DOWN then setDirection 0 1 h
      else if ch = KEY_LEFT then setDirection (- 1) 0 h
      else if ch = KEY_RIGHT then setDirection 1 0 h
      else h)"

text \<open>
  The input loop \<^verbatim>\<open>while ((ch = getch()) != ERR)\<close> (lines 199 to 240). Its argument is the
  list of values that the successive calls of \<^verbatim>\<open>getch\<close> return in this frame; when the
  list is used up nothing is pending and \<^verbatim>\<open>getch\<close> returns \<^verbatim>\<open>ERR\<close>. The result is the
  value of \<^verbatim>\<open>running\<close> after the loop and the heart: on a quit key the loop sets
  \<^verbatim>\<open>running = false\<close> and leaves by \<^verbatim>\<open>break\<close>, which reads no further key.
\<close>

fun process_input :: "int list \<Rightarrow> Heart \<Rightarrow> bool \<times> Heart" where
  "process_input [] h = (True, h)"
| "process_input (ch # pending) h =
     (if ch = ERR then (True, h)
      else if ch = chr CHR ''q'' \<or> ch = chr CHR ''Q'' then (False, h)
      else process_input pending (handle_key ch h))"

text \<open>
  The boundary check (lines 247 to 268). \<^verbatim>\<open>heartX\<close> and \<^verbatim>\<open>heartY\<close> are read once, before
  the four tests, and every \<^verbatim>\<open>setPosition\<close> writes both coordinates.
\<close>

definition constrain :: "BattleBox \<Rightarrow> Heart \<Rightarrow> Heart" where
  "constrain battleBox h =
     (let heartX = getX h;
          heartY = getY h;
          h = (if heartX < of_int (BattleBox_getX battleBox + 1)
               then setPosition (of_int (BattleBox_getX battleBox + 1)) heartY h else h);
          h = (if heartX > of_int (BattleBox_getX battleBox + getWidth battleBox - 1)
               then setPosition (of_int (BattleBox_getX battleBox + getWidth battleBox - 1)) heartY h
               else h);
          h = (if heartY < of_int (BattleBox_getY battleBox + 1)
               then setPosition heartX (of_int (BattleBox_getY battleBox + 1)) h else h);
          h = (if heartY > of_int (BattleBox_getY battleBox + getHeight battleBox - 1)
               then setPosition heartX (of_int (BattleBox_getY battleBox + getHeight battleBox - 1)) h
               else h)
      in h)"

text \<open>
  The state of \<^verbatim>\<open>main\<close>: the two objects, the flag \<^verbatim>\<open>running\<close>, and the terminal
  operations issued so far.
\<close>

record Game =
  heart :: Heart
  battleBox :: BattleBox
  running :: bool
  terminal :: "term_op list"

text \<open>
  One iteration of the game loop (lines 194 to 276): the input loop, then, whatever the
  input loop did, \<^verbatim>\<open>update\<close>, the boundary check, \<^verbatim>\<open>draw\<close>, \<^verbatim>\<open>refresh\<close> and
  \<^verbatim>\<open>usleep(16667)\<close>.
\<close>

definition frame :: "int list \<Rightarrow> Game \<Rightarrow> Game" where
  "frame pending g =
     (let (run, h) = process_input pending (heart g);
          h = update h;
          h = constrain (battleBox g) h;
          (h, ops) = Heart_draw h
      in g\<lparr> heart := h, running := run,
            terminal := terminal g @ ops @ [Refresh, Usleep 16667] \<rparr>)"

text \<open>
  \<^verbatim>\<open>while (running)\<close>: one list of pending keys for each iteration. The loop may run for
  ever; the model runs it for as many iterations as it is given lists of keys.
\<close>

fun game_loop :: "int list list \<Rightarrow> Game \<Rightarrow> Game" where
  "game_loop [] g = g"
| "game_loop (pending # later) g =
     (if running g then game_loop later (frame pending g) else g)"

text \<open>
  \<^verbatim>\<open>main\<close> up to the loop, from the size of the terminal that \<^verbatim>\<open>getmaxyx\<close> reports
  (lines 172 to 193). The division of two \<^verbatim>\<open>int\<close>s truncates towards zero.
\<close>

definition main_init :: "int \<Rightarrow> int \<Rightarrow> int \<Rightarrow> Game" where
  "main_init ACS_DIAMOND maxY maxX =
     (let (box, ops) = BattleBox_draw (BattleBox_init (maxX sdiv 2 - 20) (maxY sdiv 2 - 8) 40 16)
      in \<lparr> heart = Heart_init ACS_DIAMOND (maxX sdiv 2) (maxY sdiv 2),
           battleBox = box,
           running = True,
           terminal = ops @
             [Mvprintw (maxY - 3) 2 ''Arrow keys to set direction, Space to stop/start'',
              Mvprintw (maxY - 2) 2 ''Q to quit''] \<rparr>)"

subsection \<open>Reading the terminal operations\<close>

text \<open>
  The cells that a list of operations writes with \<^verbatim>\<open>mvaddch\<close>, as (row, column) pairs,
  the columns written in one row and the rows written in one column.
\<close>

definition cells :: "term_op list \<Rightarrow> (int \<times> int) list" where
  "cells ops = concat (map (\<lambda>op. case op of Mvaddch r c ch \<Rightarrow> [(r, c)] | _ \<Rightarrow> []) ops)"

definition columns_of_row :: "int \<Rightarrow> term_op list \<Rightarrow> int set" where
  "columns_of_row r ops = snd ` {p \<in> set (cells ops). fst p = r}"

definition rows_of_column :: "int \<Rightarrow> term_op list \<Rightarrow> int set" where
  "rows_of_column c ops = fst ` {p \<in> set (cells ops). snd p = c}"

subsection \<open>Predicates on the keys and on the state\<close>

text \<open>
  The keys that steer the heart: Space and the four arrows. Every other key that the
  input loop handles changes the aspect ratio or the speed, or nothing.
\<close>

definition steering_key :: "int \<Rightarrow> bool" where
  "steering_key ch \<longleftrightarrow>
     ch = chr CHR '' '' \<or> ch = KEY_UP \<or> ch = KEY_DOWN \<or> ch = KEY_LEFT \<or> ch = KEY_RIGHT"

text \<open>The interior of the box, as the boundary check bounds it.\<close>

definition inside :: "BattleBox \<Rightarrow> Heart \<Rightarrow> bool" where
  "inside b h \<longleftrightarrow>
     of_int (box_x b + 1) \<le> heart_x h \<and> heart_x h \<le> of_int (box_x b + box_width b - 1) \<and>
     of_int (box_y b + 1) \<le> heart_y h \<and> heart_y h \<le> of_int (box_y b + box_height b - 1)"

text \<open>The ranges that the input loop keeps the aspect ratio and the speed in.\<close>

definition in_ranges :: "Heart \<Rightarrow> bool" where
  "in_ranges h \<longleftrightarrow>
     1 \<le> aspectRatio h \<and> aspectRatio h \<le> 5 \<and> 0.05 \<le> baseSpeed h \<and> baseSpeed h \<le> 1"

text \<open>
  A heart against the left wall and heading into it, a heart that has not been steered
  yet, and a direction along one axis.
\<close>

definition pinned_left :: "BattleBox \<Rightarrow> Heart \<Rightarrow> bool" where
  "pinned_left b h \<longleftrightarrow>
     heart_x h = of_int (box_x b + 1) \<and>
     of_int (box_y b + 1) < heart_y h \<and> heart_y h < of_int (box_y b + box_height b - 1) \<and>
     directionX h = - 1 \<and> directionY h = 0 \<and> moving h \<and>
     0 < baseSpeed h \<and> 0 < aspectRatio h"

definition at_rest :: "Heart \<Rightarrow> bool" where
  "at_rest h \<longleftrightarrow> \<not> moving h \<and> directionX h = 0 \<and> directionY h = 0"


text \<open>
  Keys that take the heart of an 80 by 24 terminal to the left wall: Left, the speed
  raised to 1 and the aspect ratio to 5 in the first iteration, then three more
  iterations of five columns each.
\<close>

definition keys_to_left_wall :: "int list list" where
  "keys_to_left_wall =
     [[KEY_LEFT] @ replicate 14 (chr CHR '']'') @ replicate 15 (chr CHR ''+''), [], [], []]"


subsection \<open>The arithmetic of Heart in binary32\<close>

text \<open>
  Rounding to binary32. \<open>rne\<close> rounds a real to the nearest integer, a tie to the even
  one. \<open>expo x\<close> is the exponent of \<open>x\<close>, the integer \<open>e\<close> with \<open>2^e \<le> |x| < 2^(e+1)\<close>, read
  off the number of binary digits of the integer part of \<open>|x|\<close>, or of \<open>1 / |x|\<close> when
  \<open>|x| < 1\<close>. \<open>fl32 x\<close> is the multiple of the unit in the last place nearest to \<open>x\<close>,
  for a significand of 24 bits and a smallest exponent of -126 (below it the unit stays
  \<open>2^-149\<close>: subnormal numbers). A result of magnitude \<open>2^128\<close> or more, which is an
  infinity in binary32, is outside the model.
\<close>

definition rne :: "real \<Rightarrow> int" where
  "rne y = (let f = \<lfloor>y\<rfloor>; r = y - of_int f
            in if r < 1 / 2 then f else if 1 / 2 < r then f + 1
               else if even f then f else f + 1)"

definition expo :: "real \<Rightarrow> int" where
  "expo x = (if 1 \<le> \<bar>x\<bar> then bitlen \<lfloor>\<bar>x\<bar>\<rfloor> - 1 else - bitlen (\<lceil>1 / \<bar>x\<bar>\<rceil> - 1))"

definition fl32 :: "real \<Rightarrow> real" where
  "fl32 x = (let e = max (expo x) (- 126) - 23
             in of_int (rne (x / 2 powi e)) * 2 powi e)"

text \<open>
  The constructor, \<^verbatim>\<open>update\<close> and \<^verbatim>\<open>setDirection\<close> (lines 17 to 43) with the rounding
  after every literal, conversion and operation. \<^verbatim>\<open>sqrt\<close> returns the correctly rounded
  square root. When a square or the sum of the squares overflows, or the squares
  underflow so far that the length is zero, \<^verbatim>\<open>setDirection\<close> computes with an infinity
  or divides by zero, and stores infinities, zeros or NaN; the model does not have
  these: the result is then \<open>None\<close>.
\<close>

definition Heart_init_f32 :: "int \<Rightarrow> int \<Rightarrow> int \<Rightarrow> Heart" where
  "Heart_init_f32 ACS_DIAMOND startX startY =
     \<lparr> heart_x = fl32 (of_int startX), heart_y = fl32 (of_int startY),
       lastDrawnX = startX, lastDrawnY = startY,
       directionX = fl32 0, directionY = fl32 0,
       baseSpeed = fl32 0.3, aspectRatio = fl32 2.0,
       moving = False, symbol = ACS_DIAMOND \<rparr>"

definition update_f32 :: "Heart \<Rightarrow> Heart" where
  "update_f32 h =
     (if moving h then
        h\<lparr> heart_x := fl32 (heart_x h + fl32 (fl32 (directionX h * baseSpeed h) * aspectRatio h)),
           heart_y := fl32 (heart_y h + fl32 (directionY h * baseSpeed h)) \<rparr>
      else h)"

definition setDirection_f32 :: "real \<Rightarrow> real \<Rightarrow> Heart \<Rightarrow> Heart option" where
  "setDirection_f32 dx dy h =
     (if dx \<noteq> 0 \<or> dy \<noteq> 0 then
        (let length = fl32 (sqrt (fl32 (fl32 (dx * dx) + fl32 (dy * dy))))
         in if 2 ^ 128 \<le> fl32 (dx * dx) \<or> 2 ^ 128 \<le> fl32 (dy * dy)
               \<or> 2 ^ 128 \<le> fl32 (fl32 (dx * dx) + fl32 (dy * dy)) \<or> length = 0
            then None
            else Some (h\<lparr> directionX := fl32 (dx / length), directionY := fl32 (dy / length),
                          moving := True \<rparr>))
      else Some h)"

text \<open>
  The heart of an 80 by 24 terminal after Up, in binary32: at (40, 12), direction
  (0, -1), moving, speed \<^verbatim>\<open>0.3f\<close>.
\<close>

definition heart_up :: Heart where
  "heart_up = the (setDirection_f32 0 (- 1) (Heart_init_f32 96 40 12))"

section \<open>Properties\<close>

lemmas heart_defs = update_def setDirection_def setAspectRatio_def setSpeed_def stop_def
  start_def isMoving_def setPosition_def getX_def getY_def getAspectRatio_def getSpeed_def

lemmas box_defs = BattleBox_getX_def BattleBox_getY_def getWidth_def getHeight_def
  BattleBox_init_def

lemmas key_defs = ERR_def KEY_UP_def KEY_DOWN_def KEY_LEFT_def KEY_RIGHT_def chr_def

subsection \<open>The state that main builds\<close>

lemma battleBox_main_init:
  "battleBox (main_init d maxY maxX) =
     \<lparr> box_x = maxX sdiv 2 - 20, box_y = maxY sdiv 2 - 8, box_width = 40, box_height = 16,
       needsRedraw = False \<rparr>"
  by (simp add: main_init_def BattleBox_draw_def BattleBox_init_def)

lemma heart_main_init:
  "heart (main_init d maxY maxX) = Heart_init d (maxX sdiv 2) (maxY sdiv 2)"
  by (simp add: main_init_def BattleBox_draw_def BattleBox_init_def)

lemma running_main_init: "running (main_init d maxY maxX)"
  by (simp add: main_init_def BattleBox_draw_def BattleBox_init_def)

lemma sdiv_80x24: "(80::int) sdiv 2 = 40" "(24::int) sdiv 2 = 12"
  by (simp_all add: signed_divide_int_def)

subsection \<open>The boundary check\<close>

text \<open>
  A remark on the boundary check as a function of any position: whenever one of the two
  tests on the row fires, \<^verbatim>\<open>setPosition(heartX, ...)\<close> writes the column that was read
  before the tests on the column, so the column after the check is the column before it.
  This needs a row and a column out of bounds at once, which no run of \<^verbatim>\<open>main\<close> produces
  (see C1 and C2 below, on the runs).
\<close>

lemma constrain_stale_x:
  "heart_y h < of_int (box_y b + 1) \<or> of_int (box_y b + box_height b - 1) < heart_y h \<Longrightarrow>
   heart_x (constrain b h) = heart_x h"
  by (auto simp add: constrain_def heart_defs box_defs Let_def)

subsection \<open>One iteration of the loop\<close>

lemma chr_codes:
  "chr CHR '' '' = 32" "chr CHR ''q'' = 113" "chr CHR ''Q'' = 81" "chr CHR ''+'' = 43"
  "chr CHR ''='' = 61" "chr CHR ''-'' = 45" "chr CHR ''_'' = 95" "chr CHR ''['' = 91"
  "chr CHR '']'' = 93"
  by (simp_all add: chr_def)

lemma Heart_draw_fst:
  "fst (Heart_draw h) =
     h\<lparr> lastDrawnX := c_round (heart_x h), lastDrawnY := c_round (heart_y h) \<rparr>"
  by (auto simp add: Heart_draw_def Let_def)

lemma heart_frame:
  "heart (frame pending g) =
     fst (Heart_draw (constrain (battleBox g) (update (snd (process_input pending (heart g))))))"
  by (simp add: frame_def split_beta Let_def)

lemma running_frame: "running (frame pending g) = fst (process_input pending (heart g))"
  by (simp add: frame_def split_beta Let_def)

lemma battleBox_frame: "battleBox (frame pending g) = battleBox g"
  by (simp add: frame_def split_beta Let_def)

lemma terminal_frame:
  "terminal (frame pending g) =
     terminal g @
     snd (Heart_draw (constrain (battleBox g) (update (snd (process_input pending (heart g)))))) @
     [Refresh, Usleep 16667]"
  by (simp add: frame_def split_beta Let_def)

lemma battleBox_game_loop: "battleBox (game_loop frames g) = battleBox g"
  by (induction frames arbitrary: g) (simp_all add: battleBox_frame)

lemma game_loop_stopped: "\<not> running g \<Longrightarrow> game_loop frames g = g"
  by (cases frames) simp_all

lemma update_fields:
  "aspectRatio (update h) = aspectRatio h" "baseSpeed (update h) = baseSpeed h"
  "directionX (update h) = directionX h" "directionY (update h) = directionY h"
  "moving (update h) = moving h" "lastDrawnX (update h) = lastDrawnX h"
  "lastDrawnY (update h) = lastDrawnY h" "symbol (update h) = symbol h"
  by (simp_all add: update_def)

lemma constrain_fields:
  "aspectRatio (constrain b h) = aspectRatio h" "baseSpeed (constrain b h) = baseSpeed h"
  "directionX (constrain b h) = directionX h" "directionY (constrain b h) = directionY h"
  "moving (constrain b h) = moving h" "lastDrawnX (constrain b h) = lastDrawnX h"
  "lastDrawnY (constrain b h) = lastDrawnY h" "symbol (constrain b h) = symbol h"
  by (simp_all add: constrain_def heart_defs Let_def)

lemma draw_fields:
  "aspectRatio (fst (Heart_draw h)) = aspectRatio h" "baseSpeed (fst (Heart_draw h)) = baseSpeed h"
  "directionX (fst (Heart_draw h)) = directionX h" "directionY (fst (Heart_draw h)) = directionY h"
  "moving (fst (Heart_draw h)) = moving h" "heart_x (fst (Heart_draw h)) = heart_x h"
  "heart_y (fst (Heart_draw h)) = heart_y h" "symbol (fst (Heart_draw h)) = symbol h"
  by (simp_all add: Heart_draw_fst)

subsection \<open>The keys\<close>

lemma handle_key_aspect_speed:
  "handle_key (chr CHR ''+'') h = h\<lparr> aspectRatio := min (aspectRatio h + 0.2) 5 \<rparr>"
  "handle_key (chr CHR ''='') h = h\<lparr> aspectRatio := min (aspectRatio h + 0.2) 5 \<rparr>"
  "handle_key (chr CHR ''-'') h = h\<lparr> aspectRatio := max (aspectRatio h - 0.2) 1 \<rparr>"
  "handle_key (chr CHR ''_'') h = h\<lparr> aspectRatio := max (aspectRatio h - 0.2) 1 \<rparr>"
  "handle_key (chr CHR ''['') h = h\<lparr> baseSpeed := max (baseSpeed h - 0.05) 0.05 \<rparr>"
  "handle_key (chr CHR '']'') h = h\<lparr> baseSpeed := min (baseSpeed h + 0.05) 1 \<rparr>"
  by (simp_all add: handle_key_def chr_codes key_defs heart_defs Let_def min_def max_def)

lemma handle_key_space: "handle_key (chr CHR '' '') h = h\<lparr> moving := \<not> moving h \<rparr>"
  by (simp add: handle_key_def heart_defs)

lemma handle_key_arrows:
  "handle_key KEY_UP h = h\<lparr> directionX := 0, directionY := - 1, moving := True \<rparr>"
  "handle_key KEY_DOWN h = h\<lparr> directionX := 0, directionY := 1, moving := True \<rparr>"
  "handle_key KEY_LEFT h = h\<lparr> directionX := - 1, directionY := 0, moving := True \<rparr>"
  "handle_key KEY_RIGHT h = h\<lparr> directionX := 1, directionY := 0, moving := True \<rparr>"
  by (simp_all add: handle_key_def chr_codes key_defs heart_defs Let_def)

lemma process_input_no_quit:
  "\<forall>k\<in>set pre. k \<noteq> ERR \<and> k \<noteq> chr CHR ''q'' \<and> k \<noteq> chr CHR ''Q'' \<Longrightarrow>
   process_input pre h = (True, fold handle_key pre h)"
  by (induction pre arbitrary: h) simp_all

lemma process_input_quit:
  "\<forall>k\<in>set pre. k \<noteq> ERR \<and> k \<noteq> chr CHR ''q'' \<and> k \<noteq> chr CHR ''Q'' \<Longrightarrow>
   c = chr CHR ''q'' \<or> c = chr CHR ''Q'' \<Longrightarrow>
   process_input (pre @ c # post) h = (False, fold handle_key pre h)"
  by (induction pre arbitrary: h) (auto simp: key_defs)

text \<open>The same equations on the key codes, for running the loop on given keys.\<close>

lemma handle_key_codes:
  "handle_key 32 h = h\<lparr> moving := \<not> moving h \<rparr>"
  "handle_key 43 h = h\<lparr> aspectRatio := min (aspectRatio h + 0.2) 5 \<rparr>"
  "handle_key 61 h = h\<lparr> aspectRatio := min (aspectRatio h + 0.2) 5 \<rparr>"
  "handle_key 45 h = h\<lparr> aspectRatio := max (aspectRatio h - 0.2) 1 \<rparr>"
  "handle_key 95 h = h\<lparr> aspectRatio := max (aspectRatio h - 0.2) 1 \<rparr>"
  "handle_key 91 h = h\<lparr> baseSpeed := max (baseSpeed h - 0.05) 0.05 \<rparr>"
  "handle_key 93 h = h\<lparr> baseSpeed := min (baseSpeed h + 0.05) 1 \<rparr>"
  "handle_key 259 h = h\<lparr> directionX := 0, directionY := - 1, moving := True \<rparr>"
  "handle_key 258 h = h\<lparr> directionX := 0, directionY := 1, moving := True \<rparr>"
  "handle_key 260 h = h\<lparr> directionX := - 1, directionY := 0, moving := True \<rparr>"
  "handle_key 261 h = h\<lparr> directionX := 1, directionY := 0, moving := True \<rparr>"
  by (simp_all add: handle_key_def chr_codes key_defs heart_defs Let_def min_def max_def)

lemmas run_simps = running_main_init running_frame heart_frame battleBox_frame
  battleBox_main_init heart_main_init sdiv_80x24 Heart_init_def chr_codes ERR_def KEY_UP_def
  KEY_DOWN_def KEY_LEFT_def KEY_RIGHT_def handle_key_codes update_def constrain_def
  setPosition_def getX_def getY_def box_defs Heart_draw_fst c_round_def

subsection \<open>Quitting\<close>

text \<open>
  C3 (a quit key read by the input loop ends the game loop at once: \<^verbatim>\<open>update\<close>, the
  boundary check, the redraw, \<^verbatim>\<open>refresh\<close> and the sleep of that iteration are skipped).
  The code does not skip them: \<^verbatim>\<open>break\<close> leaves the input loop only, and the flag
  \<^verbatim>\<open>running\<close> is tested when the iteration is over. On an 80 by 24 terminal, with Right
  and then \<^verbatim>\<open>q\<close> pending in the first iteration, the heart still moves from column 40 to
  40.6 and is redrawn in cell 41, and the terminal is refreshed and the sleep is taken.
\<close>

theorem quit_still_runs_frame:
  "heart_x (heart (main_init 96 24 80)) = 40
   \<and> heart_x (heart (game_loop [[KEY_RIGHT, chr CHR ''q'']] (main_init 96 24 80))) = 203 / 5
   \<and> terminal (game_loop [[KEY_RIGHT, chr CHR ''q'']] (main_init 96 24 80)) =
       terminal (main_init 96 24 80) @
       [Mvaddch 12 40 32, Attron (COLOR_PAIR 1), Mvaddch 12 41 96, Attroff (COLOR_PAIR 1),
        Refresh, Usleep 16667]"
  by (simp add: running_main_init heart_frame terminal_frame battleBox_main_init heart_main_init
      sdiv_80x24 Heart_init_def handle_key_def chr_codes key_defs heart_defs constrain_def box_defs
      Heart_draw_def Let_def c_round_def clearPrevious_def)

text \<open>
  C3, as the code has it: when the input loop reads \<^verbatim>\<open>q\<close> or \<^verbatim>\<open>Q\<close> after the keys
  \<open>pre\<close>, the keys \<open>post\<close> that are still pending are not read, the rest of the iteration
  runs once more on the heart that the keys \<open>pre\<close> left (\<^verbatim>\<open>update\<close>, the boundary check,
  \<^verbatim>\<open>draw\<close>, \<^verbatim>\<open>refresh\<close>, \<^verbatim>\<open>usleep\<close>), \<^verbatim>\<open>running\<close> is false, and no later iteration
  runs.
\<close>

theorem quit_finishes_frame:
  assumes "\<forall>k\<in>set pre. k \<noteq> ERR \<and> k \<noteq> chr CHR ''q'' \<and> k \<noteq> chr CHR ''Q''"
    and "c = chr CHR ''q'' \<or> c = chr CHR ''Q''"
  shows "frame (pre @ c # post) g =
           g\<lparr> heart := fst (Heart_draw (constrain (battleBox g)
                                (update (fold handle_key pre (heart g))))),
              running := False,
              terminal := terminal g @
                snd (Heart_draw (constrain (battleBox g)
                       (update (fold handle_key pre (heart g))))) @
                [Refresh, Usleep 16667] \<rparr>
         \<and> game_loop later (frame (pre @ c # post) g) = frame (pre @ c # post) g"
proof -
  have p: "process_input (pre @ c # post) (heart g) = (False, fold handle_key pre (heart g))"
    using assms by (rule process_input_quit)
  have f: "frame (pre @ c # post) g =
           g\<lparr> heart := fst (Heart_draw (constrain (battleBox g)
                                (update (fold handle_key pre (heart g))))),
              running := False,
              terminal := terminal g @
                snd (Heart_draw (constrain (battleBox g)
                       (update (fold handle_key pre (heart g))))) @
                [Refresh, Usleep 16667] \<rparr>"
    by (simp add: frame_def p split_beta Let_def)
  have "\<not> running (frame (pre @ c # post) g)"
    by (simp add: running_frame p)
  then have "game_loop later (frame (pre @ c # post) g) = frame (pre @ c # post) g"
    by (rule game_loop_stopped)
  with f show ?thesis by simp
qed

theorem quit_finishes_frame_witness:
  "heart_x (heart (frame ([KEY_RIGHT] @ chr CHR ''q'' # [KEY_LEFT]) (main_init 96 24 80))) = 203 / 5
   \<and> directionX (heart (frame ([KEY_RIGHT] @ chr CHR ''q'' # [KEY_LEFT]) (main_init 96 24 80))) = 1
   \<and> \<not> running (frame ([KEY_RIGHT] @ chr CHR ''q'' # [KEY_LEFT]) (main_init 96 24 80))
   \<and> game_loop [[KEY_UP]] (frame ([KEY_RIGHT] @ chr CHR ''q'' # [KEY_LEFT]) (main_init 96 24 80)) =
       frame ([KEY_RIGHT] @ chr CHR ''q'' # [KEY_LEFT]) (main_init 96 24 80)"
proof -
  have pre: "\<forall>k\<in>set [KEY_RIGHT]. k \<noteq> ERR \<and> k \<noteq> chr CHR ''q'' \<and> k \<noteq> chr CHR ''Q''"
    by (simp add: key_defs)
  have c: "chr CHR ''q'' = chr CHR ''q'' \<or> chr CHR ''q'' = chr CHR ''Q''"
    by simp
  from quit_finishes_frame [OF pre c, of "[KEY_LEFT]" "main_init 96 24 80" "[[KEY_UP]]"]
  show ?thesis
    by (simp add: battleBox_main_init heart_main_init sdiv_80x24 Heart_init_def handle_key_arrows
        heart_defs constrain_def box_defs draw_fields)
qed

subsection \<open>The ranges of the aspect ratio and the speed\<close>

lemma in_ranges_handle_key: "in_ranges h \<Longrightarrow> in_ranges (handle_key ch h)"
  by (simp add: handle_key_def heart_defs in_ranges_def Let_def)

lemma in_ranges_process_input: "in_ranges h \<Longrightarrow> in_ranges (snd (process_input pending h))"
  by (induction pending arbitrary: h) (simp_all add: in_ranges_handle_key)

lemma in_ranges_frame: "in_ranges (heart g) \<Longrightarrow> in_ranges (heart (frame pending g))"
  using in_ranges_process_input [of "heart g" pending]
  by (simp add: heart_frame in_ranges_def draw_fields constrain_fields update_fields)

lemma in_ranges_game_loop: "in_ranges (heart g) \<Longrightarrow> in_ranges (heart (game_loop frames g))"
  by (induction frames arbitrary: g) (simp_all add: in_ranges_frame)

lemma in_ranges_main_init: "in_ranges (heart (main_init d maxY maxX))"
  by (simp add: heart_main_init Heart_init_def in_ranges_def)

text \<open>
  C7. From the state that \<^verbatim>\<open>main\<close> builds, after any number of iterations on any keys
  and any further keys read by the input loop, the aspect ratio lies in [1, 5] and the
  speed in [0.05, 1]. The keys \<^verbatim>\<open>+\<close> and \<^verbatim>\<open>=\<close> set the aspect ratio to the smaller of
  its value plus 0.2 and 5, \<^verbatim>\<open>-\<close> and \<^verbatim>\<open>_\<close> to the larger of its value minus 0.2 and 1;
  \<^verbatim>\<open>[\<close> sets the speed to the larger of its value minus 0.05 and 0.05, \<^verbatim>\<open>]\<close> to the
  smaller of its value plus 0.05 and 1; and they change no other field of the heart: not
  the position, the direction or the moving flag.
\<close>

theorem ranges_kept:
  "1 \<le> aspectRatio (snd (process_input pending (heart (game_loop frames (main_init d maxY maxX)))))
   \<and> aspectRatio (snd (process_input pending (heart (game_loop frames (main_init d maxY maxX))))) \<le> 5
   \<and> 0.05 \<le> baseSpeed (snd (process_input pending (heart (game_loop frames (main_init d maxY maxX)))))
   \<and> baseSpeed (snd (process_input pending (heart (game_loop frames (main_init d maxY maxX))))) \<le> 1
   \<and> handle_key (chr CHR ''+'') h = h\<lparr> aspectRatio := min (aspectRatio h + 0.2) 5 \<rparr>
   \<and> handle_key (chr CHR ''='') h = h\<lparr> aspectRatio := min (aspectRatio h + 0.2) 5 \<rparr>
   \<and> handle_key (chr CHR ''-'') h = h\<lparr> aspectRatio := max (aspectRatio h - 0.2) 1 \<rparr>
   \<and> handle_key (chr CHR ''_'') h = h\<lparr> aspectRatio := max (aspectRatio h - 0.2) 1 \<rparr>
   \<and> handle_key (chr CHR ''['') h = h\<lparr> baseSpeed := max (baseSpeed h - 0.05) 0.05 \<rparr>
   \<and> handle_key (chr CHR '']'') h = h\<lparr> baseSpeed := min (baseSpeed h + 0.05) 1 \<rparr>"
proof -
  have "in_ranges (snd (process_input pending (heart (game_loop frames (main_init d maxY maxX)))))"
    by (intro in_ranges_process_input in_ranges_game_loop in_ranges_main_init)
  then show ?thesis
    by (simp add: in_ranges_def handle_key_aspect_speed)
qed

subsection \<open>Against the left wall\<close>

lemma pinned_handle_key:
  "pinned_left b h \<Longrightarrow> \<not> steering_key ch \<Longrightarrow> pinned_left b (handle_key ch h)"
  by (simp add: handle_key_def heart_defs pinned_left_def steering_key_def Let_def)

lemma pinned_process_input:
  "pinned_left b h \<Longrightarrow> \<forall>ch\<in>set pending. \<not> steering_key ch \<Longrightarrow>
   pinned_left b (snd (process_input pending h))"
  by (induction pending arbitrary: h) (simp_all add: pinned_handle_key)

text \<open>
  \<^verbatim>\<open>update\<close> takes the heart to the left of the wall, by the speed times the aspect
  ratio, and the boundary check puts it back: together they change nothing.
\<close>

lemma pinned_update_constrain:
  assumes "pinned_left b h" and "2 \<le> box_width b"
  shows "constrain b (update h) = h"
proof -
  have sa: "0 < baseSpeed h * aspectRatio h"
    using assms(1) by (simp add: pinned_left_def)
  have "(2::real) \<le> of_int (box_width b)"
    using assms(2) by linarith
  with sa have w: "\<not> real_of_int (box_width b) < 2 - baseSpeed h * aspectRatio h"
    by linarith
  show ?thesis
    using assms(1) sa w by (simp add: pinned_left_def constrain_def heart_defs box_defs Let_def)
qed

lemma pinned_draw: "pinned_left b (fst (Heart_draw h)) = pinned_left b h"
  by (simp add: pinned_left_def draw_fields)

lemma pinned_frame:
  "pinned_left (battleBox g) (heart g) \<Longrightarrow> 2 \<le> box_width (battleBox g) \<Longrightarrow>
   \<forall>ch\<in>set pending. \<not> steering_key ch \<Longrightarrow>
   pinned_left (battleBox g) (heart (frame pending g))"
  by (simp add: heart_frame pinned_draw pinned_update_constrain pinned_process_input)

lemma pinned_game_loop:
  "pinned_left (battleBox g) (heart g) \<Longrightarrow> 2 \<le> box_width (battleBox g) \<Longrightarrow>
   \<forall>pending\<in>set frames. \<forall>ch\<in>set pending. \<not> steering_key ch \<Longrightarrow>
   pinned_left (battleBox g) (heart (game_loop frames g))"
proof (induction frames arbitrary: g)
  case Nil
  then show ?case by simp
next
  case (Cons pending later)
  show ?case
  proof (cases "running g")
    case True
    have "pinned_left (battleBox (frame pending g)) (heart (frame pending g))"
      using Cons.prems by (simp add: battleBox_frame pinned_frame)
    then have "pinned_left (battleBox (frame pending g))
                 (heart (game_loop later (frame pending g)))"
      using Cons.prems by (intro Cons.IH) (simp_all add: battleBox_frame)
    then show ?thesis using True by (simp add: battleBox_frame)
  next
    case False
    then show ?thesis using Cons.prems by simp
  qed
qed

lemma pinned_update_less:
  "pinned_left b h \<Longrightarrow> heart_x (update h) < of_int (box_x b + 1)"
  by (simp add: pinned_left_def update_def)

text \<open>
  C8. Let \<open>g\<close> be a state of the program (reached from the state that \<^verbatim>\<open>main\<close> builds by
  some iterations of the loop) in which the heart is against the left wall, at column
  \<open>box.x + 1\<close>, with its row strictly inside the interior, direction (-1, 0) and moving.
  Then after any number of further iterations in which no arrow key and no Space is
  read, the column is still exactly \<open>box.x + 1\<close>, and the next \<^verbatim>\<open>update\<close> takes it below
  \<open>box.x + 1\<close> again.
\<close>

theorem pinned_left_stays:
  assumes "g = game_loop earlier (main_init d maxY maxX)"
    and "heart_x (heart g) = of_int (box_x (battleBox g) + 1)"
    and "of_int (box_y (battleBox g) + 1) < heart_y (heart g)"
    and "heart_y (heart g) < of_int (box_y (battleBox g) + box_height (battleBox g) - 1)"
    and "directionX (heart g) = - 1" and "directionY (heart g) = 0" and "moving (heart g)"
    and "\<forall>pending\<in>set frames. \<forall>ch\<in>set pending. \<not> steering_key ch"
  shows "heart_x (heart (game_loop frames g)) = of_int (box_x (battleBox g) + 1)
       \<and> heart_x (update (heart (game_loop frames g))) < of_int (box_x (battleBox g) + 1)"
proof -
  have "in_ranges (heart g)"
    unfolding assms(1) by (intro in_ranges_game_loop in_ranges_main_init)
  then have "0 < baseSpeed (heart g)" "0 < aspectRatio (heart g)"
    by (simp_all add: in_ranges_def)
  with assms have p: "pinned_left (battleBox g) (heart g)"
    by (simp add: pinned_left_def)
  have w: "2 \<le> box_width (battleBox g)"
    unfolding assms(1) by (simp add: battleBox_game_loop battleBox_main_init)
  have "pinned_left (battleBox g) (heart (game_loop frames g))"
    using p w assms(8) by (rule pinned_game_loop)
  then show ?thesis
    using pinned_update_less [of "battleBox g" "heart (game_loop frames g)"]
    by (simp add: pinned_left_def)
qed

lemma left_wall_heart:
  "heart (game_loop keys_to_left_wall (main_init 96 24 80)) =
     \<lparr> heart_x = 21, heart_y = 12, lastDrawnX = 21, lastDrawnY = 12, directionX = - 1,
       directionY = 0, baseSpeed = 1, aspectRatio = 5, moving = True, symbol = 96 \<rparr>"
  by (simp add: keys_to_left_wall_def run_simps numeral_eq_Suc)

theorem pinned_left_stays_witness:
  "heart_x (heart (game_loop keys_to_left_wall (main_init 96 24 80))) = 21
   \<and> box_x (battleBox (game_loop keys_to_left_wall (main_init 96 24 80))) + 1 = 21
   \<and> heart_y (heart (game_loop keys_to_left_wall (main_init 96 24 80))) = 12
   \<and> directionX (heart (game_loop keys_to_left_wall (main_init 96 24 80))) = - 1
   \<and> directionY (heart (game_loop keys_to_left_wall (main_init 96 24 80))) = 0
   \<and> moving (heart (game_loop keys_to_left_wall (main_init 96 24 80)))
   \<and> heart_x (heart (game_loop [[], [chr CHR ''-'']]
                       (game_loop keys_to_left_wall (main_init 96 24 80)))) = 21
   \<and> heart_x (update (heart (game_loop [[], [chr CHR ''-'']]
                       (game_loop keys_to_left_wall (main_init 96 24 80))))) < 21"
proof -
  have b: "battleBox (game_loop keys_to_left_wall (main_init 96 24 80)) =
     \<lparr> box_x = 20, box_y = 4, box_width = 40, box_height = 16, needsRedraw = False \<rparr>"
    by (simp add: battleBox_game_loop battleBox_main_init sdiv_80x24)
  have k: "\<forall>pending\<in>set [[], [chr CHR ''-'']]. \<forall>ch\<in>set pending. \<not> steering_key ch"
    by (simp add: steering_key_def chr_codes key_defs)
  have "heart_x (heart (game_loop [[], [chr CHR ''-'']]
                       (game_loop keys_to_left_wall (main_init 96 24 80)))) =
          of_int (box_x (battleBox (game_loop keys_to_left_wall (main_init 96 24 80))) + 1)
      \<and> heart_x (update (heart (game_loop [[], [chr CHR ''-'']]
                       (game_loop keys_to_left_wall (main_init 96 24 80)))))
          < of_int (box_x (battleBox (game_loop keys_to_left_wall (main_init 96 24 80))) + 1)"
    by (rule pinned_left_stays [OF refl _ _ _ _ _ _ k]) (simp_all add: left_wall_heart b)
  then show ?thesis
    by (simp add: left_wall_heart b)
qed

subsection \<open>Space\<close>

lemma update_stopped: "\<not> moving h \<Longrightarrow> update h = h"
  by (simp add: update_def)

lemma update_funpow_stopped: "\<not> moving h \<Longrightarrow> (update ^^ n) h = h"
  by (induction n) (simp_all add: update_stopped)

lemma update_no_direction:
  "directionX h = 0 \<Longrightarrow> directionY h = 0 \<Longrightarrow> update h = h"
  by (simp add: update_def)

lemma update_funpow_no_direction:
  "directionX h = 0 \<Longrightarrow> directionY h = 0 \<Longrightarrow> (update ^^ n) h = h"
  by (induction n) (simp_all add: update_no_direction)

text \<open>
  C9 (Space twice gives the moving flag its first value back, and the position does not
  change between the two: no \<^verbatim>\<open>update\<close> between them moves the heart). The second half
  fails for a heart that was stopped before the first Space: between the two it is
  moving. On an 80 by 24 terminal, Right and Space in the first iteration leave the
  heart stopped at column 40 with direction (1, 0); Space in the second iteration starts
  it, and the \<^verbatim>\<open>update\<close> of that iteration takes it to 40.6; Space in the third stops it
  again, at 40.6.
\<close>

theorem space_twice_moves:
  "\<not> moving (heart (game_loop [[KEY_RIGHT, chr CHR '' '']] (main_init 96 24 80)))
   \<and> heart_x (heart (game_loop [[KEY_RIGHT, chr CHR '' '']] (main_init 96 24 80))) = 40
   \<and> heart_x (update (handle_key (chr CHR '' '')
        (heart (game_loop [[KEY_RIGHT, chr CHR '' '']] (main_init 96 24 80))))) = 203 / 5
   \<and> \<not> moving (heart (game_loop [[KEY_RIGHT, chr CHR '' ''], [chr CHR '' ''], [chr CHR '' '']]
        (main_init 96 24 80)))
   \<and> heart_x (heart (game_loop [[KEY_RIGHT, chr CHR '' ''], [chr CHR '' ''], [chr CHR '' '']]
        (main_init 96 24 80))) = 203 / 5"
  by (simp add: run_simps)

text \<open>
  C9, as the code has it: Space twice gives the whole state of the heart back, the
  moving flag with it; and for a heart that was moving before the first Space, and so is
  stopped between the two, or whose direction is (0, 0), as before the first arrow key,
  any number of calls of \<^verbatim>\<open>update\<close> between the two change nothing.
\<close>

theorem space_twice:
  "handle_key (chr CHR '' '') (handle_key (chr CHR '' '') h) = h
   \<and> (moving h \<or> directionX h = 0 \<and> directionY h = 0 \<longrightarrow>
        (update ^^ n) (handle_key (chr CHR '' '') h) = handle_key (chr CHR '' '') h)"
proof -
  have "moving h \<Longrightarrow>
      (update ^^ n) (handle_key (chr CHR '' '') h) = handle_key (chr CHR '' '') h"
    by (simp add: handle_key_space update_funpow_stopped)
  moreover have "directionX h = 0 \<and> directionY h = 0 \<Longrightarrow>
      (update ^^ n) (handle_key (chr CHR '' '') h) = handle_key (chr CHR '' '') h"
    by (simp add: handle_key_space update_funpow_no_direction)
  ultimately show ?thesis
    by (auto simp add: handle_key_space)
qed

theorem space_twice_witness:
  "moving (handle_key KEY_RIGHT (Heart_init 96 40 12))
   \<and> handle_key (chr CHR '' '')
        (handle_key (chr CHR '' '') (handle_key KEY_RIGHT (Heart_init 96 40 12)))
       = handle_key KEY_RIGHT (Heart_init 96 40 12)
   \<and> heart_x ((update ^^ 3)
        (handle_key (chr CHR '' '') (handle_key KEY_RIGHT (Heart_init 96 40 12)))) = 40
   \<and> heart_x ((update ^^ 3) (handle_key (chr CHR '' '') (Heart_init 96 40 12))) = 40"
  using space_twice [of "handle_key KEY_RIGHT (Heart_init 96 40 12)" 3]
    space_twice [of "Heart_init 96 40 12" 3]
  by (simp add: handle_key_arrows handle_key_space Heart_init_def)

subsection \<open>Before the first steering key\<close>

lemma constrain_inside: "inside b h \<Longrightarrow> constrain b h = h"
  by (simp add: inside_def constrain_def heart_defs box_defs Let_def)

lemma at_rest_handle_key:
  "at_rest h \<Longrightarrow> \<not> steering_key ch \<Longrightarrow>
   at_rest (handle_key ch h) \<and> heart_x (handle_key ch h) = heart_x h
   \<and> heart_y (handle_key ch h) = heart_y h"
  by (simp add: handle_key_def heart_defs at_rest_def steering_key_def Let_def)

lemma at_rest_process_input:
  "at_rest h \<Longrightarrow> \<forall>ch\<in>set pending. \<not> steering_key ch \<Longrightarrow>
   at_rest (snd (process_input pending h)) \<and> heart_x (snd (process_input pending h)) = heart_x h
   \<and> heart_y (snd (process_input pending h)) = heart_y h"
proof (induction pending arbitrary: h)
  case Nil
  then show ?case by simp
next
  case (Cons ch pending)
  have k: "at_rest (handle_key ch h) \<and> heart_x (handle_key ch h) = heart_x h
     \<and> heart_y (handle_key ch h) = heart_y h"
    using Cons.prems by (intro at_rest_handle_key) simp_all
  have "\<forall>ch\<in>set pending. \<not> steering_key ch"
    using Cons.prems(2) by simp
  with k have "at_rest (snd (process_input pending (handle_key ch h)))
     \<and> heart_x (snd (process_input pending (handle_key ch h))) = heart_x (handle_key ch h)
     \<and> heart_y (snd (process_input pending (handle_key ch h))) = heart_y (handle_key ch h)"
    by (intro Cons.IH) simp_all
  with k Cons.prems(1) show ?case
    by (cases "ch = ERR \<or> ch = chr CHR ''q'' \<or> ch = chr CHR ''Q''") auto
qed

lemma inside_position:
  "heart_x h' = heart_x h \<Longrightarrow> heart_y h' = heart_y h \<Longrightarrow> inside b h' = inside b h"
  by (simp add: inside_def)

lemma at_rest_frame:
  assumes "at_rest (heart g)" and "inside (battleBox g) (heart g)"
    and "\<forall>ch\<in>set pending. \<not> steering_key ch"
  shows "at_rest (heart (frame pending g)) \<and> heart_x (heart (frame pending g)) = heart_x (heart g)
       \<and> heart_y (heart (frame pending g)) = heart_y (heart g)"
proof -
  define h where "h = snd (process_input pending (heart g))"
  have p: "at_rest h \<and> heart_x h = heart_x (heart g) \<and> heart_y h = heart_y (heart g)"
    unfolding h_def using assms(1,3) by (rule at_rest_process_input)
  then have u: "update h = h"
    by (simp add: update_stopped at_rest_def)
  have "inside (battleBox g) h = inside (battleBox g) (heart g)"
    using p by (intro inside_position) simp_all
  then have c: "constrain (battleBox g) h = h"
    using assms(2) by (intro constrain_inside) simp
  have "heart (frame pending g) = fst (Heart_draw h)"
    by (simp add: heart_frame h_def [symmetric] u c)
  then show ?thesis
    using p by (simp add: draw_fields at_rest_def)
qed

lemma at_rest_game_loop:
  "at_rest (heart g) \<Longrightarrow> inside (battleBox g) (heart g) \<Longrightarrow>
   \<forall>pending\<in>set frames. \<forall>ch\<in>set pending. \<not> steering_key ch \<Longrightarrow>
   heart_x (heart (game_loop frames g)) = heart_x (heart g)
   \<and> heart_y (heart (game_loop frames g)) = heart_y (heart g)"
proof (induction frames arbitrary: g)
  case Nil
  then show ?case by simp
next
  case (Cons pending later)
  show ?case
  proof (cases "running g")
    case True
    have f: "at_rest (heart (frame pending g))
      \<and> heart_x (heart (frame pending g)) = heart_x (heart g)
      \<and> heart_y (heart (frame pending g)) = heart_y (heart g)"
      using Cons.prems by (intro at_rest_frame) simp_all
    then have "inside (battleBox g) (heart (frame pending g)) = inside (battleBox g) (heart g)"
      by (intro inside_position) simp_all
    then have i: "inside (battleBox (frame pending g)) (heart (frame pending g))"
      using Cons.prems(2) by (simp add: battleBox_frame)
    have l: "\<forall>pending\<in>set later. \<forall>ch\<in>set pending. \<not> steering_key ch"
      using Cons.prems(3) by simp
    have "heart_x (heart (game_loop later (frame pending g))) = heart_x (heart (frame pending g))
      \<and> heart_y (heart (game_loop later (frame pending g))) = heart_y (heart (frame pending g))"
      using f i l by (intro Cons.IH) simp_all
    with f True show ?thesis by simp
  next
    case False
    then show ?thesis by simp
  qed
qed

lemma inside_main_init:
  "inside (battleBox (main_init d maxY maxX)) (heart (main_init d maxY maxX))"
  by (simp add: battleBox_main_init heart_main_init Heart_init_def inside_def)

text \<open>
  C10. The constructor leaves the heart not moving, with direction (0, 0), speed 0.3 and
  aspect ratio 2, so \<^verbatim>\<open>update\<close> does not change it; \<^verbatim>\<open>main\<close> constructs it at the centre
  (\<open>maxX / 2\<close>, \<open>maxY / 2\<close>) of the terminal; and after any number of iterations in which
  no arrow key and no Space is read, its position is still that centre.
\<close>

theorem initial_heart_rests:
  "\<not> moving (Heart_init d startX startY)
   \<and> directionX (Heart_init d startX startY) = 0 \<and> directionY (Heart_init d startX startY) = 0
   \<and> baseSpeed (Heart_init d startX startY) = 0.3 \<and> aspectRatio (Heart_init d startX startY) = 2
   \<and> update (Heart_init d startX startY) = Heart_init d startX startY
   \<and> heart (main_init d maxY maxX) = Heart_init d (maxX sdiv 2) (maxY sdiv 2)
   \<and> ((\<forall>pending\<in>set frames. \<forall>ch\<in>set pending. \<not> steering_key ch) \<longrightarrow>
        heart_x (heart (game_loop frames (main_init d maxY maxX))) = of_int (maxX sdiv 2)
      \<and> heart_y (heart (game_loop frames (main_init d maxY maxX))) = of_int (maxY sdiv 2))"
proof -
  have r: "at_rest (heart (main_init d maxY maxX))"
    by (simp add: heart_main_init Heart_init_def at_rest_def)
  have "(\<forall>pending\<in>set frames. \<forall>ch\<in>set pending. \<not> steering_key ch) \<longrightarrow>
        heart_x (heart (game_loop frames (main_init d maxY maxX))) = of_int (maxX sdiv 2)
      \<and> heart_y (heart (game_loop frames (main_init d maxY maxX))) = of_int (maxY sdiv 2)"
    using at_rest_game_loop [OF r inside_main_init, of frames]
    by (simp add: heart_main_init Heart_init_def)
  then show ?thesis
    by (simp add: heart_main_init Heart_init_def update_def)
qed

theorem initial_heart_rests_witness:
  "heart_x (heart (game_loop [[chr CHR ''+'', chr CHR '']''], [], [chr CHR ''x'']]
                       (main_init 96 24 80))) = 40
   \<and> heart_y (heart (game_loop [[chr CHR ''+'', chr CHR '']''], [], [chr CHR ''x'']]
                       (main_init 96 24 80))) = 12
   \<and> update (Heart_init 96 40 12) = Heart_init 96 40 12"
proof -
  have k: "\<forall>pending\<in>set [[chr CHR ''+'', chr CHR '']''], [], [chr CHR ''x'']].
       \<forall>ch\<in>set pending. \<not> steering_key ch"
    by (simp add: steering_key_def key_defs)
  with initial_heart_rests [of 96 40 12 24 80 "[[chr CHR ''+'', chr CHR '']''], [], [chr CHR ''x'']]"]
  show ?thesis by (simp add: sdiv_80x24)
qed

subsection \<open>The border of the box\<close>

lemma cells_append: "cells (xs @ ys) = cells xs @ cells ys"
  by (simp add: cells_def)

lemma cells_Cons:
  "cells (Mvaddch r c ch # ops) = (r, c) # cells ops"
  "cells (Attron a # ops) = cells ops"
  "cells (Attroff a # ops) = cells ops"
  "cells [] = []"
  by (simp_all add: cells_def)

lemma cells_concat: "cells (concat xss) = concat (map cells xss)"
  by (induction xss) (simp_all add: cells_append cells_Cons)

lemma cells_draw:
  "needsRedraw b \<Longrightarrow> cells (snd (BattleBox_draw b)) =
     concat (map (\<lambda>i. [(box_y b, box_x b + i), (box_y b + box_height b, box_x b + i)])
               [- 1 .. box_width b + 1]) @
     concat (map (\<lambda>i. [(box_y b + i, box_x b), (box_y b + i, box_x b + box_width b),
                        (box_y b + i, box_x b - 1), (box_y b + i, box_x b + 1 + box_width b)])
               [0 .. box_height b])"
  by (simp add: BattleBox_draw_def cells_append cells_Cons cells_concat comp_def)

lemma ex_offset: "(\<exists>i\<in>{lo .. hi}. c = x + i) \<longleftrightarrow> x + lo \<le> c \<and> c \<le> x + (hi::int)"
proof
  assume "\<exists>i\<in>{lo .. hi}. c = x + i"
  then show "x + lo \<le> c \<and> c \<le> x + hi" by auto
next
  assume "x + lo \<le> c \<and> c \<le> x + hi"
  then have "c - x \<in> {lo .. hi}" "c = x + (c - x)" by auto
  then show "\<exists>i\<in>{lo .. hi}. c = x + i" by blast
qed

lemma mem_cells_draw:
  assumes "needsRedraw b"
  shows "(r, c) \<in> set (cells (snd (BattleBox_draw b))) \<longleftrightarrow>
     (r = box_y b \<or> r = box_y b + box_height b) \<and>
       box_x b - 1 \<le> c \<and> c \<le> box_x b + box_width b + 1
     \<or> box_y b \<le> r \<and> r \<le> box_y b + box_height b \<and>
       (c = box_x b - 1 \<or> c = box_x b \<or> c = box_x b + box_width b \<or> c = box_x b + box_width b + 1)"
proof -
  have "(r, c) \<in> set (cells (snd (BattleBox_draw b))) \<longleftrightarrow>
      (r = box_y b \<or> r = box_y b + box_height b) \<and> (\<exists>i\<in>{- 1 .. box_width b + 1}. c = box_x b + i)
      \<or> (\<exists>i\<in>{0 .. box_height b}. r = box_y b + i) \<and>
        (c = box_x b - 1 \<or> c = box_x b \<or> c = box_x b + box_width b \<or> c = box_x b + box_width b + 1)"
    unfolding cells_draw [OF assms] by auto
  then show ?thesis
    unfolding ex_offset by auto
qed

lemma set_cells_draw:
  "needsRedraw b \<Longrightarrow> set (cells (snd (BattleBox_draw b))) =
     ({box_y b, box_y b + box_height b} \<times> {box_x b - 1 .. box_x b + box_width b + 1})
   \<union> ({box_y b .. box_y b + box_height b} \<times>
       {box_x b - 1, box_x b, box_x b + box_width b, box_x b + box_width b + 1})"
  by (auto simp: mem_cells_draw)

lemma top_row_columns:
  assumes "needsRedraw b" "0 < box_width b" "0 < box_height b"
  shows "columns_of_row (box_y b) (snd (BattleBox_draw b)) = {box_x b - 1 .. box_x b + box_width b + 1}"
  using assms(2,3) unfolding columns_of_row_def set_cells_draw [OF assms(1)]
  by (auto simp: image_iff)

lemma bottom_row_columns:
  assumes "needsRedraw b" "0 < box_width b" "0 < box_height b"
  shows "columns_of_row (box_y b + box_height b) (snd (BattleBox_draw b)) = {box_x b - 1 .. box_x b + box_width b + 1}"
  using assms(2,3) unfolding columns_of_row_def set_cells_draw [OF assms(1)]
  by (auto simp: image_iff)

lemma side_rows:
  assumes "needsRedraw b" "0 < box_width b" "0 < box_height b"
    and "c \<in> {box_x b - 1, box_x b, box_x b + box_width b, box_x b + box_width b + 1}"
  shows "rows_of_column c (snd (BattleBox_draw b)) = {box_y b .. box_y b + box_height b}"
  using assms(2,3,4) unfolding rows_of_column_def set_cells_draw [OF assms(1)]
  by (auto simp: image_iff)

lemma inner_rows:
  assumes "needsRedraw b" "0 < box_width b" "0 < box_height b"
    and "box_y b < r" "r < box_y b + box_height b" 
  shows "columns_of_row r (snd (BattleBox_draw b)) = {box_x b - 1, box_x b, box_x b + box_width b, box_x b + box_width b + 1}"
  using assms(2-) unfolding columns_of_row_def set_cells_draw [OF assms(1)]
  by (auto simp: image_iff)

text \<open>
  C4 (drawn with the dirty flag set, the top and bottom rows of the border span exactly
  \<open>width + 2\<close> columns). They span \<open>width + 3\<close>: the loop runs from \<open>-1\<close> to \<open>width + 1\<close>,
  both included. For the box of an 80 by 24 terminal, 40 wide, that is 43 columns.
\<close>

theorem border_row_width:
  "card (columns_of_row (box_y (BattleBox_init 20 4 40 16))
           (snd (BattleBox_draw (BattleBox_init 20 4 40 16)))) = 43
   \<and> card (columns_of_row (box_y (BattleBox_init 20 4 40 16) + box_height (BattleBox_init 20 4 40 16))
           (snd (BattleBox_draw (BattleBox_init 20 4 40 16)))) = 43
   \<and> box_width (BattleBox_init 20 4 40 16) + 2 = 42"
proof -
  have "needsRedraw (BattleBox_init 20 4 40 16)" "0 < box_width (BattleBox_init 20 4 40 16)"
    "0 < box_height (BattleBox_init 20 4 40 16)"
    by (simp_all add: BattleBox_init_def)
  from top_row_columns [OF this] bottom_row_columns [OF this] show ?thesis
    by (simp add: BattleBox_init_def)
qed

text \<open>
  C4, as the code has it. For a box of positive width and height drawn with the dirty
  flag set: the top row \<open>y\<close> and the bottom row \<open>y + height\<close> are written in exactly the
  columns \<open>x - 1\<close> to \<open>x + width + 1\<close>, which are \<open>width + 3\<close> columns; each of the four
  columns \<open>x - 1\<close>, \<open>x\<close>, \<open>x + width\<close>, \<open>x + width + 1\<close> (two on each side) is written in
  exactly the rows \<open>y\<close> to \<open>y + height\<close>; and a row strictly between the top and the
  bottom is written in these four columns only. Afterwards the dirty flag is clear; and
  \<^verbatim>\<open>draw\<close> with the dirty flag clear writes nothing and leaves the box as it is.
\<close>

theorem BattleBox_draw_border:
  "(needsRedraw b \<and> 0 < box_width b \<and> 0 < box_height b \<longrightarrow>
      columns_of_row (box_y b) (snd (BattleBox_draw b)) =
        {box_x b - 1 .. box_x b + box_width b + 1}
    \<and> columns_of_row (box_y b + box_height b) (snd (BattleBox_draw b)) =
        {box_x b - 1 .. box_x b + box_width b + 1}
    \<and> card (columns_of_row (box_y b) (snd (BattleBox_draw b))) = nat (box_width b + 3)
    \<and> card (columns_of_row (box_y b + box_height b) (snd (BattleBox_draw b))) =
        nat (box_width b + 3)
    \<and> (\<forall>c \<in> {box_x b - 1, box_x b, box_x b + box_width b, box_x b + box_width b + 1}.
         rows_of_column c (snd (BattleBox_draw b)) = {box_y b .. box_y b + box_height b})
    \<and> (\<forall>r. box_y b < r \<and> r < box_y b + box_height b \<longrightarrow>
         columns_of_row r (snd (BattleBox_draw b)) =
           {box_x b - 1, box_x b, box_x b + box_width b, box_x b + box_width b + 1}))
   \<and> (needsRedraw b \<longrightarrow> \<not> needsRedraw (fst (BattleBox_draw b)))
   \<and> (\<not> needsRedraw b \<longrightarrow> BattleBox_draw b = (b, []))"
proof -
  have "card {box_x b - 1 .. box_x b + box_width b + 1} = nat (box_width b + 3)"
    by simp
  moreover have "needsRedraw b \<longrightarrow> \<not> needsRedraw (fst (BattleBox_draw b))"
    by (simp add: BattleBox_draw_def)
  moreover have "\<not> needsRedraw b \<longrightarrow> BattleBox_draw b = (b, [])"
    by (simp add: BattleBox_draw_def)
  ultimately show ?thesis
    using top_row_columns [of b] bottom_row_columns [of b] side_rows [of b] inner_rows [of b]
    by auto
qed

theorem BattleBox_draw_border_witness:
  "needsRedraw (BattleBox_init 20 4 40 16)
   \<and> columns_of_row 4 (snd (BattleBox_draw (BattleBox_init 20 4 40 16))) = {19 .. 61}
   \<and> columns_of_row 20 (snd (BattleBox_draw (BattleBox_init 20 4 40 16))) = {19 .. 61}
   \<and> card (columns_of_row 4 (snd (BattleBox_draw (BattleBox_init 20 4 40 16)))) = 43
   \<and> rows_of_column 19 (snd (BattleBox_draw (BattleBox_init 20 4 40 16))) = {4 .. 20}
   \<and> rows_of_column 61 (snd (BattleBox_draw (BattleBox_init 20 4 40 16))) = {4 .. 20}
   \<and> columns_of_row 5 (snd (BattleBox_draw (BattleBox_init 20 4 40 16))) = {19, 20, 60, 61}
   \<and> \<not> needsRedraw (fst (BattleBox_draw (BattleBox_init 20 4 40 16)))
   \<and> BattleBox_draw (fst (BattleBox_draw (BattleBox_init 20 4 40 16))) =
       (fst (BattleBox_draw (BattleBox_init 20 4 40 16)), [])"
  using BattleBox_draw_border [of "BattleBox_init 20 4 40 16"]
    BattleBox_draw_border [of "fst (BattleBox_draw (BattleBox_init 20 4 40 16))"]
  by (simp add: BattleBox_init_def)

subsection \<open>The boundary check in the running program\<close>























subsection \<open>setDirection and update: exact arithmetic\<close>

text \<open>
  In the exact arithmetic of the first model the direction that \<^verbatim>\<open>setDirection\<close> stores
  has length 1, and \<open>n\<close> calls of \<^verbatim>\<open>update\<close> add \<open>n\<close> times the step.
\<close>

lemma setDirection_zero: "setDirection 0 0 h = h"
  by (simp add: setDirection_def)


lemma update_exact:
  "moving h \<Longrightarrow> (update ^^ n) h =
     h\<lparr> heart_x := heart_x h + of_nat n * (directionX h * baseSpeed h * aspectRatio h),
        heart_y := heart_y h + of_nat n * (directionY h * baseSpeed h) \<rparr>"
proof (induction n)
  case 0
  show ?case by simp
next
  case (Suc n)
  then show ?case
    by (simp add: update_def algebra_simps)
qed

subsection \<open>setDirection and update: binary32\<close>

lemma bitlen_numeral:
  "bitlen (numeral (Num.Bit0 n)) = bitlen (numeral n) + 1"
  "bitlen (numeral (Num.Bit1 n)) = bitlen (numeral n) + 1"
  "bitlen 1 = 1"
  by (subst compute_bitlen; simp)+

lemmas fl32_eval = fl32_def expo_def bitlen_numeral rne_def Let_def

lemma fl32_small: "fl32 0 = 0" "fl32 1 = 1" "fl32 (- 1) = - 1" "fl32 2 = 2"
  by (simp_all add: fl32_eval)

lemma rne_error: "\<bar>of_int (rne y) - y\<bar> \<le> 1 / 2"
proof -
  have "of_int \<lfloor>y\<rfloor> \<le> y" "y < of_int \<lfloor>y\<rfloor> + 1"
    by linarith+
  then show ?thesis
    by (auto simp add: rne_def Let_def abs_le_iff)
qed

lemma expo_bounds:
  assumes "x \<noteq> 0"
  shows "2 powi (expo x) \<le> \<bar>x\<bar> \<and> \<bar>x\<bar> < 2 powi (expo x + 1)"
proof (cases "1 \<le> \<bar>x\<bar>")
  case True
  define n where "n = \<lfloor>\<bar>x\<bar>\<rfloor>"
  have n: "0 < n" "of_int n \<le> \<bar>x\<bar>" "\<bar>x\<bar> < of_int n + 1"
    using True unfolding n_def by linarith+
  have e: "expo x = bitlen n - 1"
    using True by (simp add: expo_def n_def)
  have k: "1 \<le> bitlen n"
    using n(1) by (simp add: bitlen_alt_def)
  from bitlen_bounds [OF n(1)] have b: "2 ^ nat (bitlen n - 1) \<le> n" "n < 2 ^ nat (bitlen n)"
    by simp_all
  have "(2::real) powi (bitlen n - 1) = 2 ^ nat (bitlen n - 1)"
    using k by (simp add: power_int_nonneg_exp)
  also have "\<dots> \<le> of_int n"
    using b(1) by (metis of_int_le_iff of_int_numeral of_int_power)
  finally have lo: "(2::real) powi (bitlen n - 1) \<le> \<bar>x\<bar>"
    using n(2) by linarith
  have "n + 1 \<le> 2 ^ nat (bitlen n)"
    using b(2) by linarith
  then have "of_int (n + 1) \<le> (2::real) ^ nat (bitlen n)"
    by (metis of_int_le_iff of_int_numeral of_int_power)
  moreover have "(2::real) powi (bitlen n - 1 + 1) = 2 ^ nat (bitlen n)"
    using k by (simp add: power_int_nonneg_exp)
  ultimately have hi: "\<bar>x\<bar> < (2::real) powi (bitlen n - 1 + 1)"
    using n(3) by simp
  show ?thesis
    unfolding e using lo hi by simp
next
  case False
  define y where "y = 1 / \<bar>x\<bar>"
  have x: "0 < \<bar>x\<bar>" "\<bar>x\<bar> < 1"
    using assms False by simp_all
  then have y: "1 < y"
    unfolding y_def by simp
  define m where "m = \<lceil>y\<rceil>"
  have m: "y \<le> of_int m" "of_int m - 1 < y" "0 < m - 1"
    using y unfolding m_def by linarith+
  define k where "k = bitlen (m - 1)"
  have e: "expo x = - k"
    using False by (simp add: expo_def k_def m_def y_def)
  have k: "1 \<le> k"
    using m(3) by (simp add: k_def bitlen_alt_def)
  from bitlen_bounds [OF m(3)] have b: "2 ^ nat (k - 1) \<le> m - 1" "m - 1 < 2 ^ nat k"
    by (simp_all add: k_def)
  have "m \<le> 2 ^ nat k"
    using b(2) by linarith
  then have "of_int m \<le> (2::real) ^ nat k"
    by (metis of_int_le_iff of_int_numeral of_int_power)
  then have yk: "y \<le> 2 ^ nat k"
    using m(1) by linarith
  have "(2::real) ^ nat (k - 1) \<le> of_int (m - 1)"
    using b(1) by (metis of_int_le_iff of_int_numeral of_int_power)
  then have ky: "(2::real) ^ nat (k - 1) < y"
    using m(2) by simp
  have xy: "\<bar>x\<bar> = 1 / y"
    using x by (simp add: y_def)
  have "(2::real) powi (- k) = 1 / 2 ^ nat k"
    using k by (simp add: power_int_minus_divide power_int_nonneg_exp)
  also have "\<dots> \<le> 1 / y"
    using yk y by (simp add: frac_le)
  finally have lo: "(2::real) powi (- k) \<le> \<bar>x\<bar>"
    by (simp add: xy)
  have "1 / y < 1 / (2::real) ^ nat (k - 1)"
    using ky by (simp add: frac_less2)
  also have "\<dots> = 1 / 2 powi (k - 1)"
    using k by (simp add: power_int_nonneg_exp)
  also have "\<dots> = 2 powi (- (k - 1))"
    by (rule power_int_minus_divide [symmetric])
  finally have hi: "\<bar>x\<bar> < 2 powi (- k + 1)"
    by (simp add: xy)
  show ?thesis
    unfolding e using lo hi by simp
qed

lemma fl32_error:
  assumes "2 powi (- 126) \<le> \<bar>x\<bar>"
  shows "\<bar>fl32 x - x\<bar> \<le> \<bar>x\<bar> / 2 ^ 24"
proof -
  have x0: "x \<noteq> 0"
    using assms by auto
  from expo_bounds [OF x0] have b: "2 powi (expo x) \<le> \<bar>x\<bar>" "\<bar>x\<bar> < 2 powi (expo x + 1)"
    by simp_all
  have "(2::real) powi (- 126) < 2 powi (expo x + 1)"
    using assms b(2) by linarith
  moreover have "expo x + 1 \<le> - 126 \<Longrightarrow> (2::real) powi (expo x + 1) \<le> 2 powi (- 126)"
    by (rule power_int_increasing) simp_all
  ultimately have "- 126 < expo x + 1"
    by fastforce
  then have m: "max (expo x) (- 126) = expo x"
    by simp
  define u where "u = (2::real) powi (expo x - 23)"
  have u: "0 < u"
    by (simp add: u_def)
  have f: "fl32 x = of_int (rne (x / u)) * u"
    by (simp add: fl32_def m u_def Let_def)
  have "fl32 x - x = (of_int (rne (x / u)) - x / u) * u"
    using u by (simp add: f algebra_simps)
  then have "\<bar>fl32 x - x\<bar> = \<bar>of_int (rne (x / u)) - x / u\<bar> * u"
    using u by (simp add: abs_mult)
  also have "\<dots> \<le> 1 / 2 * u"
    using rne_error [of "x / u"] u by (simp add: mult_right_mono)
  also have "\<dots> = 2 powi (expo x) / 2 ^ 24"
    by (simp add: u_def power_int_diff)
  also have "\<dots> \<le> \<bar>x\<bar> / 2 ^ 24"
    using b(1) by (simp add: divide_right_mono)
  finally show ?thesis .
qed


lemma setDirection_f32_axes:
  "setDirection_f32 0 (- 1) h = Some (h\<lparr> directionX := 0, directionY := - 1, moving := True \<rparr>)"
  "setDirection_f32 0 1 h = Some (h\<lparr> directionX := 0, directionY := 1, moving := True \<rparr>)"
  "setDirection_f32 (- 1) 0 h = Some (h\<lparr> directionX := - 1, directionY := 0, moving := True \<rparr>)"
  "setDirection_f32 1 0 h = Some (h\<lparr> directionX := 1, directionY := 0, moving := True \<rparr>)"
  by (simp_all add: setDirection_f32_def fl32_small)

lemma Heart_init_f32_40_12:
  "Heart_init_f32 96 40 12 =
     \<lparr> heart_x = 40, heart_y = 12, lastDrawnX = 40, lastDrawnY = 12, directionX = 0,
       directionY = 0, baseSpeed = 5033165 / 16777216, aspectRatio = 2, moving = False,
       symbol = 96 \<rparr>"
  by (simp add: Heart_init_f32_def fl32_eval)

lemma heart_up_eq:
  "heart_up =
     \<lparr> heart_x = 40, heart_y = 12, lastDrawnX = 40, lastDrawnY = 12, directionX = 0,
       directionY = - 1, baseSpeed = 5033165 / 16777216, aspectRatio = 2, moving = True,
       symbol = 96 \<rparr>"
  by (simp add: heart_up_def setDirection_f32_axes Heart_init_f32_40_12)

lemma update_f32_1: "update_f32 heart_up = heart_up\<lparr> heart_y := 12268339 / 1048576 \<rparr>"
  by (simp add: update_f32_def heart_up_eq fl32_eval)

lemma update_f32_2:
  "update_f32 (update_f32 heart_up) = heart_up\<lparr> heart_y := 5976883 / 524288 \<rparr>"
  by (simp add: update_f32_1) (simp add: update_f32_def heart_up_eq fl32_eval)

lemma update_f32_3:
  "update_f32 (update_f32 (update_f32 heart_up)) = heart_up\<lparr> heart_y := 11639193 / 1048576 \<rparr>"
  by (simp add: update_f32_2) (simp add: update_f32_def heart_up_eq fl32_eval)
lemma setDirection_f32_up: "setDirection_f32 0 (- 1) (Heart_init_f32 96 40 12) = Some heart_up"
  by (simp add: heart_up_def setDirection_f32_axes)

lemma update_f32_stopped: "\<not> moving h \<Longrightarrow> update_f32 h = h"
  by (simp add: update_f32_def)

text \<open>
  C6 (while moving, each call of \<^verbatim>\<open>update\<close> adds exactly \<open>direction.y * speed\<close> to
  \<open>position.y\<close>, and \<open>n\<close> calls add \<open>n\<close> times as much). In binary32 the sum is rounded at
  every call. At the centre (40, 12) of an 80 by 24 terminal, after Up, the step is
  \<open>-0.3f = -5033165/16777216\<close>; one call gives \<open>y = 12268339/1048576\<close>, about
  11.6999998, and not \<open>12 - 0.3f\<close>; three calls give \<open>11639193/1048576\<close>, about
  11.0999994, a decrease of about 0.9000006, and not \<open>12 - 3 * 0.3f\<close>.
\<close>

theorem update_f32_not_linear:
  "heart_y heart_up = 12
   \<and> directionY heart_up * baseSpeed heart_up = - (5033165 / 16777216)
   \<and> heart_y (update_f32 heart_up) = 12268339 / 1048576
   \<and> heart_y (update_f32 heart_up) \<noteq> heart_y heart_up + directionY heart_up * baseSpeed heart_up
   \<and> heart_y ((update_f32 ^^ 3) heart_up) = 11639193 / 1048576
   \<and> heart_y ((update_f32 ^^ 3) heart_up)
       \<noteq> heart_y heart_up + 3 * (directionY heart_up * baseSpeed heart_up)
   \<and> heart_y heart_up - heart_y ((update_f32 ^^ 3) heart_up) = 943719 / 1048576"
proof -
  have "(update_f32 ^^ 3) heart_up = update_f32 (update_f32 (update_f32 heart_up))"
    by (simp add: numeral_3_eq_3)
  then have f3: "(update_f32 ^^ 3) heart_up = heart_up\<lparr> heart_y := 11639193 / 1048576 \<rparr>"
    by (simp only: update_f32_3)
  show ?thesis
    by (simp add: f3 update_f32_1) (simp add: heart_up_eq)
qed

text \<open>
  C6, as the code has it. While not moving, \<^verbatim>\<open>update\<close> changes nothing. While moving,
  a call replaces \<open>position.x\<close> by the rounded sum of \<open>position.x\<close> and the step
  \<open>direction.x * speed * aspectRatio\<close> (each product rounded), and \<open>position.y\<close> by the
  rounded sum of \<open>position.y\<close> and the rounded \<open>direction.y * speed\<close>, and changes no
  other field; each new coordinate differs from the exact sum by at most \<open>2^-24\<close> of the
  magnitude of that sum (for a sum of magnitude at least \<open>2^-126\<close> and below \<open>2^128\<close>). In
  exact arithmetic \<open>n\<close> calls add \<open>n\<close> times the step.
\<close>

theorem update_f32_step:
  "(\<not> moving h \<longrightarrow> update_f32 h = h \<and> update h = h)
   \<and> (moving h \<longrightarrow>
        update_f32 h =
          h\<lparr> heart_x :=
               fl32 (heart_x h + fl32 (fl32 (directionX h * baseSpeed h) * aspectRatio h)),
             heart_y := fl32 (heart_y h + fl32 (directionY h * baseSpeed h)) \<rparr>
      \<and> (2 powi (- 126)
            \<le> \<bar>heart_x h + fl32 (fl32 (directionX h * baseSpeed h) * aspectRatio h)\<bar>
          \<and> \<bar>heart_x h + fl32 (fl32 (directionX h * baseSpeed h) * aspectRatio h)\<bar> < 2 ^ 128 \<longrightarrow>
          \<bar>heart_x (update_f32 h)
            - (heart_x h + fl32 (fl32 (directionX h * baseSpeed h) * aspectRatio h))\<bar>
          \<le> \<bar>heart_x h + fl32 (fl32 (directionX h * baseSpeed h) * aspectRatio h)\<bar> / 2 ^ 24)
      \<and> (2 powi (- 126) \<le> \<bar>heart_y h + fl32 (directionY h * baseSpeed h)\<bar>
          \<and> \<bar>heart_y h + fl32 (directionY h * baseSpeed h)\<bar> < 2 ^ 128 \<longrightarrow>
          \<bar>heart_y (update_f32 h) - (heart_y h + fl32 (directionY h * baseSpeed h))\<bar>
          \<le> \<bar>heart_y h + fl32 (directionY h * baseSpeed h)\<bar> / 2 ^ 24)
      \<and> (update ^^ n) h =
          h\<lparr> heart_x := heart_x h + of_nat n * (directionX h * baseSpeed h * aspectRatio h),
             heart_y := heart_y h + of_nat n * (directionY h * baseSpeed h) \<rparr>)"
proof (intro conjI impI)
  assume "\<not> moving h"
  then show "update_f32 h = h" "update h = h"
    by (simp_all add: update_f32_def update_def)
next
  assume m: "moving h"
  then show u: "update_f32 h =
          h\<lparr> heart_x :=
               fl32 (heart_x h + fl32 (fl32 (directionX h * baseSpeed h) * aspectRatio h)),
             heart_y := fl32 (heart_y h + fl32 (directionY h * baseSpeed h)) \<rparr>"
    by (simp add: update_f32_def)
  show "(update ^^ n) h =
          h\<lparr> heart_x := heart_x h + of_nat n * (directionX h * baseSpeed h * aspectRatio h),
             heart_y := heart_y h + of_nat n * (directionY h * baseSpeed h) \<rparr>"
    using m by (rule update_exact)
  {
    assume "2 powi (- 126)
            \<le> \<bar>heart_x h + fl32 (fl32 (directionX h * baseSpeed h) * aspectRatio h)\<bar>
          \<and> \<bar>heart_x h + fl32 (fl32 (directionX h * baseSpeed h) * aspectRatio h)\<bar> < 2 ^ 128"
    then show "\<bar>heart_x (update_f32 h)
            - (heart_x h + fl32 (fl32 (directionX h * baseSpeed h) * aspectRatio h))\<bar>
          \<le> \<bar>heart_x h + fl32 (fl32 (directionX h * baseSpeed h) * aspectRatio h)\<bar> / 2 ^ 24"
      unfolding u using fl32_error by simp
  }
  {
    assume "2 powi (- 126) \<le> \<bar>heart_y h + fl32 (directionY h * baseSpeed h)\<bar>
          \<and> \<bar>heart_y h + fl32 (directionY h * baseSpeed h)\<bar> < 2 ^ 128"
    then show "\<bar>heart_y (update_f32 h) - (heart_y h + fl32 (directionY h * baseSpeed h))\<bar>
          \<le> \<bar>heart_y h + fl32 (directionY h * baseSpeed h)\<bar> / 2 ^ 24"
      unfolding u using fl32_error by simp
  }
qed

theorem update_f32_step_witness:
  "moving heart_up
   \<and> heart_y (update_f32 heart_up) = 12268339 / 1048576
   \<and> \<bar>heart_y (update_f32 heart_up) - (12 - 5033165 / 16777216)\<bar>
       \<le> \<bar>12 - 5033165 / 16777216\<bar> / 2 ^ 24
   \<and> heart_y ((update ^^ 3) heart_up) = 12 - 3 * (5033165 / 16777216)
   \<and> update_f32 (Heart_init_f32 96 40 12) = Heart_init_f32 96 40 12"
proof -
  have m: "moving heart_up" "\<not> moving (Heart_init_f32 96 40 12)"
    by (simp_all add: heart_up_eq Heart_init_f32_40_12)
  have s: "heart_y heart_up + fl32 (directionY heart_up * baseSpeed heart_up)
      = 12 - 5033165 / 16777216"
    by (simp add: heart_up_eq fl32_eval)
  have "2 powi (- 126) \<le> \<bar>12 - 5033165 / (16777216::real)\<bar>
      \<and> \<bar>12 - 5033165 / (16777216::real)\<bar> < 2 ^ 128"
    by (simp add: power_int_minus_divide)
  with update_f32_step [of heart_up 3] update_f32_step [of "Heart_init_f32 96 40 12" 0] m s
  show ?thesis
    by (simp add: update_f32_1) (simp add: heart_up_eq)
qed




end
